theory Spec2Isabelle
  imports Main
begin

section \<open>Data model of the message convertor\<close>

text \<open>
  The internal segments of \<^verbatim>\<open>nekro_agent.schemas.chat_message\<close> as the convertor
  builds them: the base class carries \<^verbatim>\<open>type\<close> and \<^verbatim>\<open>text\<close>, the three subclasses
  add their own fields. The constructor of the datatype is the Python class of the
  object, which is what \<^verbatim>\<open>isinstance\<close> inspects.
\<close>

datatype ChatMessageSegmentType = TEXT | IMAGE | AT | FILE

datatype segment =
    ChatMessageSegment (seg_type: ChatMessageSegmentType) (seg_text: string)
  | ChatMessageSegmentImage (seg_type: ChatMessageSegmentType) (seg_text: string)
      (file_name: string) (local_path: string) (remote_url: string)
  | ChatMessageSegmentAt (seg_type: ChatMessageSegmentType) (seg_text: string)
      (target_qq: string) (target_nickname: string)
  | ChatMessageSegmentFile (seg_type: ChatMessageSegmentType) (seg_text: string)
      (file_name: string) (local_path: string)

text \<open>
  A OneBot wire segment: a kind tag and a payload dictionary. The payload values the
  convertor reads (\<^verbatim>\<open>text\<close>, \<^verbatim>\<open>url\<close>, \<^verbatim>\<open>file\<close>, \<^verbatim>\<open>qq\<close>) are strings.
\<close>

record message_segment =
  ms_type :: string
  ms_data :: "string \<rightharpoonup> string"

text \<open>
  The event: its message, and the group it was sent in. \<open>group_id = None\<close> is a
  \<^verbatim>\<open>MessageEvent\<close> that is not a \<^verbatim>\<open>GroupMessageEvent\<close>.
\<close>

record ob_event =
  message :: "message_segment list"
  group_id :: "int option"

record config =
  BOT_QQ :: string
  AI_CHAT_PRESET_NAME :: string

datatype error =
    AssertionError
  | KeyError string
  | TypeError
  | ValueError string
  | Raised string

datatype log_record = Warning_image_without_url message_segment

text \<open>
  The state a conversion runs in: the world the collaborators act on (network, upload
  directory, group member lists), and the warnings the logger has received so far.
\<close>

type_synonym 'w state = "'w \<times> log_record list"

text \<open>
  The collaborators of \<^verbatim>\<open>nekro_agent.tools\<close>, which the convertor awaits. Each may raise
  and each may change the world. The first two return \<^verbatim>\<open>(local_path, file_name)\<close>.
\<close>

record 'w tools =
  download_file :: "string \<Rightarrow> string \<Rightarrow> 'w \<Rightarrow> (error + string \<times> string) \<times> 'w"
  move_to_upload_dir :: "string \<Rightarrow> string \<Rightarrow> 'w \<Rightarrow> (error + string \<times> string) \<times> 'w"
  get_user_group_card_name :: "int \<Rightarrow> string \<Rightarrow> 'w \<Rightarrow> (error + string) \<times> 'w"

section \<open>String helpers of Python\<close>

text \<open>\<^verbatim>\<open>str(x)\<close> of a string is that string.\<close>

definition py_str :: "string \<Rightarrow> string" where
  "py_str s = s"

text \<open>\<^verbatim>\<open>s.split(sep)\<close> for a one-character separator: never an empty list.\<close>

fun split_sep :: "char \<Rightarrow> string \<Rightarrow> string list" where
  "split_sep sep [] = [[]]"
| "split_sep sep (c # cs) =
     (if c = sep then [] # split_sep sep cs
      else (case split_sep sep cs of
              [] \<Rightarrow> [[c]]
            | w # ws \<Rightarrow> (c # w) # ws))"

text \<open>
  \<^verbatim>\<open>s.lower()\<close>. A character of the model is a Python character with a code point
  below 256. Among these \<^verbatim>\<open>lower\<close> moves the letters A to Z (65 to 90) and the
  capital letters of Latin-1 (192 to 214 and 216 to 222) up by 32, and leaves every
  other character as it is.
\<close>

definition lower_char :: "char \<Rightarrow> char" where
  "lower_char c =
     (let n = (of_char c :: nat)
      in if (65 \<le> n \<and> n \<le> 90) \<or> (192 \<le> n \<and> n \<le> 214) \<or> (216 \<le> n \<and> n \<le> 222)
         then char_of (n + 32) else c)"

definition lower :: "string \<Rightarrow> string" where
  "lower s = map lower_char s"

text \<open>\<^verbatim>\<open>s.startswith(p)\<close>.\<close>

definition startswith :: "string \<Rightarrow> string \<Rightarrow> bool" where
  "startswith s p = (take (length p) s = p)"

section \<open>convert_chat_message\<close>

text \<open>
  Lines 51 to 54: the suffix of an image. The \<^verbatim>\<open>try\<close> block raises when the payload
  has no \<^verbatim>\<open>file\<close> key (and would when the split list were empty); the handler then
  sets the empty suffix.
\<close>

definition image_suffix :: "(string \<rightharpoonup> string) \<Rightarrow> string" where
  "image_suffix d =
     (case d ''file'' of
        None \<Rightarrow> ''''
      | Some f \<Rightarrow>
          (case split_sep CHR ''.'' f of
             [] \<Rightarrow> ''''
           | p # ps \<Rightarrow> ''.'' @ lower (last (p # ps))))"

text \<open>
  The body of the \<^verbatim>\<open>for\<close> loop (lines 42 to 105) on one wire segment, with the
  two loop variables \<^verbatim>\<open>ret_list\<close> and \<^verbatim>\<open>is_tome\<close> passed and returned.
\<close>

fun convert_segment ::
  "'w tools \<Rightarrow> config \<Rightarrow> ob_event \<Rightarrow> message_segment \<Rightarrow> segment list \<times> bool \<Rightarrow> 'w state
     \<Rightarrow> (error + segment list \<times> bool) \<times> 'w state" where
  "convert_segment tools cfg ob seg (ret_list, is_tome) (w, lg) =
     (if ms_type seg = ''text'' then
        (Inr (ret_list @
               [ChatMessageSegment TEXT
                  (case ms_data seg ''text'' of Some t \<Rightarrow> t | None \<Rightarrow> '''')],
              is_tome), (w, lg))
      else if ms_type seg = ''image'' then
        (let suffix = image_suffix (ms_data seg) in
         case ms_data seg ''url'' of
           Some remote_url' \<Rightarrow>
             (case download_file tools remote_url' suffix w of
                (Inl e, w') \<Rightarrow> (Inl e, (w', lg))
              | (Inr (local_path', file_name'), w') \<Rightarrow>
                  (Inr (ret_list @
                         [ChatMessageSegmentImage IMAGE '''' file_name' local_path' remote_url'],
                        is_tome), (w', lg)))
         | None \<Rightarrow>
             (case ms_data seg ''file'' of
                Some f \<Rightarrow>
                  (let seg_local_path =
                         (if startswith f ''file:'' then drop (length ''file:'') f else f)
                   in case move_to_upload_dir tools seg_local_path suffix w of
                        (Inl e, w') \<Rightarrow> (Inl e, (w', lg))
                      | (Inr (local_path', file_name'), w') \<Rightarrow>
                          (Inr (ret_list @
                                 [ChatMessageSegmentImage IMAGE '''' file_name' local_path' ''''],
                                is_tome), (w', lg)))
              | None \<Rightarrow>
                  (Inr (ret_list, is_tome), (w, lg @ [Warning_image_without_url seg]))))
      else if ms_type seg = ''at'' then
        (case group_id ob of
           None \<Rightarrow> (Inl AssertionError, (w, lg))
         | Some gid \<Rightarrow>
             (case ms_data seg ''qq'' of
                None \<Rightarrow> (Inl (KeyError ''qq''), (w, lg))
              | Some q \<Rightarrow>
                  (let at_qq = py_str q; bot_qq = py_str (BOT_QQ cfg) in
                   if at_qq = bot_qq then
                     (Inr (ret_list @
                            [ChatMessageSegmentAt AT '''' bot_qq (AI_CHAT_PRESET_NAME cfg)],
                           True), (w, lg))
                   else
                     (case get_user_group_card_name tools gid at_qq w of
                        (Inl e, w') \<Rightarrow> (Inl e, (w', lg))
                      | (Inr nick_name, w') \<Rightarrow>
                          (Inr (ret_list @ [ChatMessageSegmentAt AT '''' at_qq nick_name],
                                is_tome), (w', lg))))))
      else if ms_type seg = ''file'' then
        (Inr (ret_list, is_tome), (w, lg))
      else
        (Inr (ret_list, is_tome), (w, lg)))"

text \<open>The \<^verbatim>\<open>for\<close> loop: an exception raised by the body leaves the loop at once.\<close>

fun convert_loop ::
  "'w tools \<Rightarrow> config \<Rightarrow> ob_event \<Rightarrow> message_segment list \<Rightarrow> segment list \<times> bool \<Rightarrow> 'w state
     \<Rightarrow> (error + segment list \<times> bool) \<times> 'w state" where
  "convert_loop tools cfg ob [] acc st = (Inr acc, st)"
| "convert_loop tools cfg ob (seg # segs) acc st =
     (case convert_segment tools cfg ob seg acc st of
        (Inl e, st') \<Rightarrow> (Inl e, st')
      | (Inr acc', st') \<Rightarrow> convert_loop tools cfg ob segs acc' st')"

text \<open>Lines 36 to 118: the loop from the empty list, then the insertion at index 0.\<close>

definition convert_chat_message ::
  "'w tools \<Rightarrow> config \<Rightarrow> ob_event \<Rightarrow> bool \<Rightarrow> 'w state
     \<Rightarrow> (error + segment list \<times> bool) \<times> 'w state" where
  "convert_chat_message tools cfg ob msg_to_me st =
     (case convert_loop tools cfg ob (message ob) ([], False) st of
        (Inl e, st') \<Rightarrow> (Inl e, st')
      | (Inr (ret_list, is_tome), st') \<Rightarrow>
          (Inr (if msg_to_me \<and> \<not> is_tome
                then ChatMessageSegmentAt AT '''' (py_str (BOT_QQ cfg)) (AI_CHAT_PRESET_NAME cfg)
                       # ret_list
                else ret_list,
                is_tome), st'))"

section \<open>convert_chat_message_to_prompt_str\<close>

text \<open>
  What one pass of the loop of lines 133 to 141 appends to \<^verbatim>\<open>prompt_str\<close>. The
  function \<open>get_downloaded_prompt_file_path\<close> of \<^verbatim>\<open>nekro_agent.tools.common_util\<close> is a
  parameter.
\<close>

fun segment_prompt :: "(string \<Rightarrow> string) \<Rightarrow> string \<Rightarrow> segment \<Rightarrow> string" where
  "segment_prompt get_downloaded_prompt_file_path one_time_code
       (ChatMessageSegmentImage ty txt fname lpath rurl) =
     ''<'' @ one_time_code @ '' | Image:'' @ get_downloaded_prompt_file_path fname @ ''>''"
| "segment_prompt get_downloaded_prompt_file_path one_time_code
       (ChatMessageSegmentFile ty txt fname lpath) =
     ''<'' @ one_time_code @ '' | File:'' @ get_downloaded_prompt_file_path fname @ ''>''"
| "segment_prompt get_downloaded_prompt_file_path one_time_code
       (ChatMessageSegmentAt ty txt qq nick) =
     ''<'' @ one_time_code @ '' | At:[@qq:'' @ qq @ '';nickname:'' @ nick @ ''@]>''"
| "segment_prompt get_downloaded_prompt_file_path one_time_code
       (ChatMessageSegment ty txt) = txt"

fun prompt_loop :: "(string \<Rightarrow> string) \<Rightarrow> string \<Rightarrow> segment list \<Rightarrow> string \<Rightarrow> string" where
  "prompt_loop path one_time_code [] prompt_str = prompt_str"
| "prompt_loop path one_time_code (seg # segs) prompt_str =
     prompt_loop path one_time_code segs (prompt_str @ segment_prompt path one_time_code seg)"

definition convert_chat_message_to_prompt_str ::
  "(string \<Rightarrow> string) \<Rightarrow> segment list \<Rightarrow> string \<Rightarrow> string" where
  "convert_chat_message_to_prompt_str path chat_message one_time_code =
     prompt_loop path one_time_code chat_message ''''"

section \<open>convert_raw_msg_data_json_to_msg_prompt\<close>

text \<open>A decoded JSON document, as \<^verbatim>\<open>json.loads\<close> returns it.\<close>

datatype json =
    JNull
  | JBool bool
  | JNumber int
  | JString string
  | JArray "json list"
  | JObject "(string \<times> json) list"

definition bind_error :: "error + 'a \<Rightarrow> ('a \<Rightarrow> error + 'b) \<Rightarrow> error + 'b" where
  "bind_error r f = (case r of Inl e \<Rightarrow> Inl e | Inr x \<Rightarrow> f x)"

text \<open>
  Modelled from the spec: \<^verbatim>\<open>segments_from_list\<close> of \<^verbatim>\<open>nekro_agent.schemas.chat_message\<close>
  is not among the sources. The spec gives the persisted record as a JSON array of
  tagged segment objects that mirror the internal variants, and makes an unknown
  tagged variant a hard decoding error. The tags are the kind tags of the spec
  (\<^verbatim>\<open>text\<close>, \<^verbatim>\<open>image\<close>, \<^verbatim>\<open>at\<close>, \<^verbatim>\<open>file\<close>), the field names those the convertor
  passes to the constructors; a field that is missing or not a string is a decoding
  error as well.
\<close>

definition str_field :: "(string \<times> json) list \<Rightarrow> string \<Rightarrow> error + string" where
  "str_field obj k =
     (case map_of obj k of
        Some (JString s) \<Rightarrow> Inr s
      | _ \<Rightarrow> Inl (KeyError k))"

definition known_tags :: "string list" where
  "known_tags = [''text'', ''image'', ''at'', ''file'']"

fun segment_from_dict :: "json \<Rightarrow> error + segment" where
  "segment_from_dict (JObject obj) =
     (case map_of obj ''type'' of
        Some (JString t) \<Rightarrow>
          (if t = ''text'' then
             bind_error (str_field obj ''text'') (\<lambda>txt.
             Inr (ChatMessageSegment TEXT txt))
           else if t = ''image'' then
             bind_error (str_field obj ''text'') (\<lambda>txt.
             bind_error (str_field obj ''file_name'') (\<lambda>fname.
             bind_error (str_field obj ''local_path'') (\<lambda>lpath.
             bind_error (str_field obj ''remote_url'') (\<lambda>rurl.
             Inr (ChatMessageSegmentImage IMAGE txt fname lpath rurl)))))
           else if t = ''at'' then
             bind_error (str_field obj ''text'') (\<lambda>txt.
             bind_error (str_field obj ''target_qq'') (\<lambda>qq.
             bind_error (str_field obj ''target_nickname'') (\<lambda>nick.
             Inr (ChatMessageSegmentAt AT txt qq nick))))
           else if t = ''file'' then
             bind_error (str_field obj ''text'') (\<lambda>txt.
             bind_error (str_field obj ''file_name'') (\<lambda>fname.
             bind_error (str_field obj ''local_path'') (\<lambda>lpath.
             Inr (ChatMessageSegmentFile FILE txt fname lpath))))
           else Inl (ValueError t))
      | _ \<Rightarrow> Inl (KeyError ''type''))"
| "segment_from_dict _ = Inl TypeError"

fun segments_from_items :: "json list \<Rightarrow> error + segment list" where
  "segments_from_items [] = Inr []"
| "segments_from_items (item # items) =
     bind_error (segment_from_dict item) (\<lambda>seg.
     bind_error (segments_from_items items) (\<lambda>segs.
     Inr (seg # segs)))"

fun segments_from_list :: "json \<Rightarrow> error + segment list" where
  "segments_from_list (JArray items) = segments_from_items items"
| "segments_from_list _ = Inl TypeError"

text \<open>
  Line 156. \<^verbatim>\<open>json.loads\<close> of the Python standard library is a parameter: it returns
  the decoded document, or raises on text that is not well-formed JSON.
\<close>

definition convert_raw_msg_data_json_to_msg_prompt ::
  "(string \<Rightarrow> error + json) \<Rightarrow> (string \<Rightarrow> string) \<Rightarrow> string \<Rightarrow> string \<Rightarrow> error + string" where
  "convert_raw_msg_data_json_to_msg_prompt json_loads path json_data one_time_code =
     (case json_loads json_data of
        Inl e \<Rightarrow> Inl e
      | Inr doc \<Rightarrow>
          (case segments_from_list doc of
             Inl e \<Rightarrow> Inl e
           | Inr segs \<Rightarrow> Inr (convert_chat_message_to_prompt_str path segs one_time_code)))"

section \<open>Notions the properties are stated with\<close>

text \<open>A wire segment that mentions the agent itself, as line 89 tests it.\<close>

definition wire_self_at :: "config \<Rightarrow> message_segment \<Rightarrow> bool" where
  "wire_self_at cfg seg =
     (ms_type seg = ''at'' \<and>
      (case ms_data seg ''qq'' of
         None \<Rightarrow> False
       | Some q \<Rightarrow> py_str q = py_str (BOT_QQ cfg)))"

text \<open>An internal segment that mentions the agent itself.\<close>

fun is_self_mention :: "config \<Rightarrow> segment \<Rightarrow> bool" where
  "is_self_mention cfg (ChatMessageSegmentAt ty txt qq nick) = (qq = py_str (BOT_QQ cfg))"
| "is_self_mention cfg _ = False"

text \<open>The mention that line 108 inserts.\<close>

definition synthetic_mention :: "config \<Rightarrow> segment" where
  "synthetic_mention cfg =
     ChatMessageSegmentAt AT '''' (py_str (BOT_QQ cfg)) (AI_CHAT_PRESET_NAME cfg)"

text \<open>The wire segments that a successful conversion turns into an internal segment.\<close>

definition emits :: "message_segment \<Rightarrow> bool" where
  "emits seg =
     (ms_type seg = ''text'' \<or> ms_type seg = ''at'' \<or>
      (ms_type seg = ''image'' \<and>
       (ms_data seg ''url'' \<noteq> None \<or> ms_data seg ''file'' \<noteq> None)))"

text \<open>
  \<open>decoded_from cfg seg out\<close>: the internal segment \<open>out\<close> carries the data of the wire
  segment \<open>seg\<close>, in the fields that the wire data determines.
\<close>

fun decoded_from :: "config \<Rightarrow> message_segment \<Rightarrow> segment \<Rightarrow> bool" where
  "decoded_from cfg seg (ChatMessageSegment ty txt) =
     (ms_type seg = ''text'' \<and> ty = TEXT \<and>
      txt = (case ms_data seg ''text'' of Some t \<Rightarrow> t | None \<Rightarrow> ''''))"
| "decoded_from cfg seg (ChatMessageSegmentImage ty txt fname lpath rurl) =
     (ms_type seg = ''image'' \<and> ty = IMAGE \<and> txt = '''' \<and>
      (case ms_data seg ''url'' of
         Some u \<Rightarrow> rurl = u
       | None \<Rightarrow> ms_data seg ''file'' \<noteq> None \<and> rurl = ''''))"
| "decoded_from cfg seg (ChatMessageSegmentAt ty txt qq nick) =
     (ms_type seg = ''at'' \<and> ty = AT \<and> txt = '''' \<and>
      (case ms_data seg ''qq'' of
         None \<Rightarrow> False
       | Some q \<Rightarrow>
           qq = py_str q \<and>
           (if py_str q = py_str (BOT_QQ cfg) then nick = AI_CHAT_PRESET_NAME cfg else True)))"
| "decoded_from cfg seg (ChatMessageSegmentFile ty txt fname lpath) = False"

text \<open>
  What each wire segment of a list decodes to, one entry per wire segment and in
  their order: the segments that the loop body appends for it (none or one), in the
  state that the loop has reached when it comes to it. After a segment that raises,
  the list ends.
\<close>

fun decode_each ::
  "'w tools \<Rightarrow> config \<Rightarrow> ob_event \<Rightarrow> message_segment list \<Rightarrow> 'w state \<Rightarrow> segment list list" where
  "decode_each tools cfg ob [] st = []"
| "decode_each tools cfg ob (seg # segs) st =
     (case convert_segment tools cfg ob seg ([], False) st of
        (Inl e, st') \<Rightarrow> []
      | (Inr (new, t), st') \<Rightarrow> new # decode_each tools cfg ob segs st')"

text \<open>A document element that is none of the four tagged variants.\<close>

fun unknown_variant :: "json \<Rightarrow> bool" where
  "unknown_variant (JObject obj) =
     (case map_of obj ''type'' of
        Some (JString t) \<Rightarrow> t \<notin> set known_tags
      | _ \<Rightarrow> True)"
| "unknown_variant _ = True"

section \<open>A concrete setting\<close>

text \<open>
  Collaborators for the examples: the world is a counter of the calls made, the
  names they return are built from their arguments.
\<close>

definition example_tools :: "nat tools" where
  "example_tools =
     \<lparr> download_file = (\<lambda>url suffix n. (Inr (''/uploads/dl'' @ suffix, ''dl'' @ suffix), Suc n)),
       move_to_upload_dir = (\<lambda>p suffix n. (Inr (''/uploads/mv'' @ suffix, ''mv'' @ suffix), Suc n)),
       get_user_group_card_name = (\<lambda>g u n. (Inr (''card of '' @ u), Suc n)) \<rparr>"

definition example_config :: config where
  "example_config = \<lparr> BOT_QQ = ''10001'', AI_CHAT_PRESET_NAME = ''Neko'' \<rparr>"

definition text_hi :: message_segment where
  "text_hi = \<lparr> ms_type = ''text'', ms_data = [''text'' \<mapsto> ''hi''] \<rparr>"

definition file_seg :: message_segment where
  "file_seg = \<lparr> ms_type = ''file'', ms_data = [''file'' \<mapsto> ''report.pdf''] \<rparr>"

definition image_bare :: message_segment where
  "image_bare = \<lparr> ms_type = ''image'', ms_data = Map.empty \<rparr>"

definition image_both :: message_segment where
  "image_both =
     \<lparr> ms_type = ''image'',
       ms_data = [''url'' \<mapsto> ''http://x/y.png'', ''file'' \<mapsto> ''ABC.PNG''] \<rparr>"

definition at_self :: message_segment where
  "at_self = \<lparr> ms_type = ''at'', ms_data = [''qq'' \<mapsto> ''10001''] \<rparr>"

definition at_other :: message_segment where
  "at_other = \<lparr> ms_type = ''at'', ms_data = [''qq'' \<mapsto> ''20002''] \<rparr>"

definition reply_event :: ob_event where
  "reply_event = \<lparr> message = [text_hi], group_id = None \<rparr>"

definition group_event :: ob_event where
  "group_event =
     \<lparr> message = [text_hi, file_seg, image_both, at_self, at_other, image_bare],
       group_id = Some 5 \<rparr>"

definition example_prompt_path :: "string \<Rightarrow> string" where
  "example_prompt_path fname = ''./uploads/'' @ fname"

text \<open>
  A stand-in for \<^verbatim>\<open>json.loads\<close> that knows one record, a text segment followed by an
  object tagged \<^verbatim>\<open>video\<close>, and rejects every other text.
\<close>

definition example_record :: string where
  \<open>example_record = ''[{"type": "text", "text": "hi"}, {"type": "video"}]''\<close>

definition example_json_loads :: "string \<Rightarrow> error + json" where
  "example_json_loads s =
     (if s = example_record
      then Inr (JArray [JObject [(''type'', JString ''text''), (''text'', JString ''hi'')],
                        JObject [(''type'', JString ''video'')]])
      else Inl (ValueError ''JSONDecodeError''))"

section \<open>The decoding loop\<close>

declare convert_segment.simps [simp del]

lemma convert_loop_append:
  "convert_loop tools cfg ob (xs @ ys) acc st =
     (case convert_loop tools cfg ob xs acc st of
        (Inl e, st') \<Rightarrow> (Inl e, st')
      | (Inr acc', st') \<Rightarrow> convert_loop tools cfg ob ys acc' st')"
  by (induction xs arbitrary: acc st) (auto split: prod.splits sum.splits)

lemma convert_segment_ok:
  assumes "convert_segment tools cfg ob seg (ret, tome) (w, lg) = (Inr (ret', tome'), st')"
  shows "\<exists>new. ret' = ret @ new \<and> list_all2 (decoded_from cfg) (filter emits [seg]) new
           \<and> tome' = (tome \<or> wire_self_at cfg seg)"
  using assms
  by (auto simp: convert_segment.simps emits_def wire_self_at_def Let_def
           split: if_splits option.splits prod.splits sum.splits)

lemma convert_loop_ok:
  assumes "convert_loop tools cfg ob segs (ret, tome) st = (Inr (ret', tome'), st')"
  shows "\<exists>new. ret' = ret @ new \<and> list_all2 (decoded_from cfg) (filter emits segs) new
           \<and> tome' = (tome \<or> (\<exists>s\<in>set segs. wire_self_at cfg s))"
  using assms
proof (induction segs arbitrary: ret tome st)
  case Nil
  then show ?case by simp
next
  case (Cons seg segs)
  obtain w lg where st: "st = (w, lg)" by (cases st)
  from Cons.prems obtain ret1 tome1 st1 where
    step: "convert_segment tools cfg ob seg (ret, tome) (w, lg) = (Inr (ret1, tome1), st1)"
    and rest: "convert_loop tools cfg ob segs (ret1, tome1) st1 = (Inr (ret', tome'), st')"
    by (auto simp: st split: prod.splits sum.splits)
  from convert_segment_ok [OF step] obtain new1 where
    n1: "ret1 = ret @ new1" "list_all2 (decoded_from cfg) (filter emits [seg]) new1"
        "tome1 = (tome \<or> wire_self_at cfg seg)"
    by blast
  from Cons.IH [OF rest] obtain new2 where
    n2: "ret' = ret1 @ new2" "list_all2 (decoded_from cfg) (filter emits segs) new2"
        "tome' = (tome1 \<or> (\<exists>s\<in>set segs. wire_self_at cfg s))"
    by blast
  have "filter emits (seg # segs) = filter emits [seg] @ filter emits segs" by simp
  then have "list_all2 (decoded_from cfg) (filter emits (seg # segs)) (new1 @ new2)"
    using n1(2) n2(2) by (simp only: list_all2_appendI)
  moreover have "ret' = ret @ (new1 @ new2)" using n1(1) n2(1) by simp
  moreover have "tome' = (tome \<or> (\<exists>s\<in>set (seg # segs). wire_self_at cfg s))"
    using n1(3) n2(3) by auto
  ultimately show ?case by blast
qed

lemma decoded_from_self:
  "decoded_from cfg w x \<Longrightarrow> is_self_mention cfg x = wire_self_at cfg w"
  by (cases x) (auto simp: wire_self_at_def split: option.splits if_splits)

lemma decoded_count_self:
  "list_all2 (decoded_from cfg) ws xs \<Longrightarrow>
     length (filter (is_self_mention cfg) xs) = length (filter (wire_self_at cfg) ws)"
  by (induction rule: list_all2_induct) (auto dest: decoded_from_self)

lemma self_at_emits: "wire_self_at cfg s \<Longrightarrow> emits s"
  by (simp add: wire_self_at_def emits_def)

lemma filter_self_emits:
  "filter (wire_self_at cfg) (filter emits segs) = filter (wire_self_at cfg) segs"
  by (induction segs) (auto dest: self_at_emits)

lemma convert_segment_log:
  "convert_segment tools cfg ob seg acc (w, lg) =
     (case convert_segment tools cfg ob seg acc (w, []) of
        (r, (w', l)) \<Rightarrow> (r, (w', lg @ l)))"
  by (cases acc)
     (auto simp: convert_segment.simps Let_def split: option.splits prod.splits sum.splits)

lemma convert_loop_log:
  "convert_loop tools cfg ob segs acc (w, lg) =
     (case convert_loop tools cfg ob segs acc (w, []) of
        (r, (w', l)) \<Rightarrow> (r, (w', lg @ l)))"
proof (induction segs arbitrary: acc w lg)
  case Nil
  show ?case by simp
next
  case (Cons seg segs)
  obtain r w1 l1 where s0: "convert_segment tools cfg ob seg acc (w, []) = (r, (w1, l1))"
    by (metis prod.exhaust)
  then have s1: "convert_segment tools cfg ob seg acc (w, lg) = (r, (w1, lg @ l1))"
    using convert_segment_log [of tools cfg ob seg acc w lg] by simp
  show ?case
  proof (cases r)
    case (Inl e)
    with s0 s1 show ?thesis by simp
  next
    case (Inr acc1)
    obtain r2 w2 l2 where t0: "convert_loop tools cfg ob segs acc1 (w1, []) = (r2, (w2, l2))"
      by (metis prod.exhaust)
    have "convert_loop tools cfg ob segs acc1 (w1, lg @ l1) = (r2, (w2, (lg @ l1) @ l2))"
      using Cons.IH [of acc1 w1 "lg @ l1"] t0 by simp
    moreover have "convert_loop tools cfg ob segs acc1 (w1, l1) = (r2, (w2, l1 @ l2))"
      using Cons.IH [of acc1 w1 l1] t0 by simp
    ultimately show ?thesis using s0 s1 Inr by simp
  qed
qed

lemma convert_segment_message:
  "convert_segment tools cfg (ob\<lparr>message := m\<rparr>) seg acc st = convert_segment tools cfg ob seg acc st"
  by (cases acc; cases st) (simp add: convert_segment.simps)

lemma convert_loop_message:
  "convert_loop tools cfg (ob\<lparr>message := m\<rparr>) segs acc st = convert_loop tools cfg ob segs acc st"
  by (induction segs arbitrary: acc st)
     (auto simp: convert_segment_message split: prod.splits sum.splits)

lemma convert_segment_acc:
  "convert_segment tools cfg ob seg (ret, tome) st =
     (case convert_segment tools cfg ob seg ([], False) st of
        (Inl e, st') \<Rightarrow> (Inl e, st')
      | (Inr (new, t), st') \<Rightarrow> (Inr (ret @ new, tome \<or> t), st'))"
  by (cases st)
     (auto simp: convert_segment.simps Let_def split: option.splits prod.splits sum.splits)

lemma convert_loop_acc:
  "convert_loop tools cfg ob segs (ret, tome) st =
     (case convert_loop tools cfg ob segs ([], False) st of
        (Inl e, st') \<Rightarrow> (Inl e, st')
      | (Inr (new, t), st') \<Rightarrow> (Inr (ret @ new, tome \<or> t), st'))"
proof (induction segs arbitrary: ret tome st)
  case Nil
  show ?case by simp
next
  case (Cons seg segs)
  obtain r st1 where s0: "convert_segment tools cfg ob seg ([], False) st = (r, st1)"
    by (cases "convert_segment tools cfg ob seg ([], False) st")
  show ?case
  proof (cases r)
    case (Inl e)
    with s0 convert_segment_acc [of tools cfg ob seg ret tome st] show ?thesis by simp
  next
    case (Inr acc1)
    obtain new1 t1 where acc1: "acc1 = (new1, t1)" by (cases acc1)
    have s1: "convert_segment tools cfg ob seg (ret, tome) st = (Inr (ret @ new1, tome \<or> t1), st1)"
      using s0 Inr acc1 convert_segment_acc [of tools cfg ob seg ret tome st] by simp
    obtain r2 st2 where l0: "convert_loop tools cfg ob segs ([], False) st1 = (r2, st2)"
      by (cases "convert_loop tools cfg ob segs ([], False) st1")
    have a: "convert_loop tools cfg ob segs (ret @ new1, tome \<or> t1) st1 =
               (case r2 of Inl e \<Rightarrow> (Inl e, st2)
                | Inr (new, t) \<Rightarrow> (Inr ((ret @ new1) @ new, (tome \<or> t1) \<or> t), st2))"
      using Cons.IH [of "ret @ new1" "tome \<or> t1" st1] l0 by (simp split: sum.splits)
    have b: "convert_loop tools cfg ob segs (new1, t1) st1 =
               (case r2 of Inl e \<Rightarrow> (Inl e, st2)
                | Inr (new, t) \<Rightarrow> (Inr (new1 @ new, t1 \<or> t), st2))"
      using Cons.IH [of new1 t1 st1] l0 by (simp split: sum.splits)
    show ?thesis
      using s0 s1 Inr acc1 a b by (simp split: sum.splits prod.splits)
  qed
qed

lemma convert_loop_split:
  assumes "convert_loop tools cfg ob (xs @ ys) ([], False) st = (Inr (decoded, tome), st')"
  shows "\<exists>d1 t1 st1 d2 t2.
           convert_loop tools cfg ob xs ([], False) st = (Inr (d1, t1), st1)
           \<and> convert_loop tools cfg ob ys ([], False) st1 = (Inr (d2, t2), st')
           \<and> decoded = d1 @ d2 \<and> tome = (t1 \<or> t2)"
proof -
  from assms obtain d1 t1 st1 where
    xs: "convert_loop tools cfg ob xs ([], False) st = (Inr (d1, t1), st1)"
    and ys: "convert_loop tools cfg ob ys (d1, t1) st1 = (Inr (decoded, tome), st')"
    by (auto simp: convert_loop_append split: prod.splits sum.splits)
  from ys convert_loop_acc [of tools cfg ob ys d1 t1 st1] obtain d2 t2 where
    "convert_loop tools cfg ob ys ([], False) st1 = (Inr (d2, t2), st')"
    "decoded = d1 @ d2" "tome = (t1 \<or> t2)"
    by (auto split: prod.splits sum.splits)
  with xs show ?thesis by blast
qed

lemma convert_loop_split_at:
  assumes "convert_loop tools cfg ob (xs @ seg # ys) ([], False) st = (Inr (decoded, tome), st')"
  shows "\<exists>d1 t1 st1 new t st2 d2 t2.
           convert_loop tools cfg ob xs ([], False) st = (Inr (d1, t1), st1)
           \<and> convert_segment tools cfg ob seg ([], False) st1 = (Inr (new, t), st2)
           \<and> convert_loop tools cfg ob ys ([], False) st2 = (Inr (d2, t2), st')
           \<and> decoded = d1 @ new @ d2 \<and> tome = (t1 \<or> t \<or> t2)"
proof -
  from convert_loop_split [OF assms] obtain d1 t1 st1 d t where
    xs: "convert_loop tools cfg ob xs ([], False) st = (Inr (d1, t1), st1)"
    and r: "convert_loop tools cfg ob (seg # ys) ([], False) st1 = (Inr (d, t), st')"
    and e: "decoded = d1 @ d" "tome = (t1 \<or> t)"
    by blast
  from r obtain new tn st2 where
    sg: "convert_segment tools cfg ob seg ([], False) st1 = (Inr (new, tn), st2)"
    and ys: "convert_loop tools cfg ob ys (new, tn) st2 = (Inr (d, t), st')"
    by (auto split: prod.splits sum.splits)
  from ys convert_loop_acc [of tools cfg ob ys new tn st2] obtain d2 t2 where
    "convert_loop tools cfg ob ys ([], False) st2 = (Inr (d2, t2), st')"
    "d = new @ d2" "t = (tn \<or> t2)"
    by (auto split: prod.splits sum.splits)
  with xs sg e show ?thesis by blast
qed

lemma convert_segment_piece:
  assumes "convert_segment tools cfg ob seg ([], False) st = (Inr (new, t), st')"
  shows "length new = (if emits seg then 1 else 0) \<and> list_all (decoded_from cfg seg) new"
proof -
  obtain w lg where st: "st = (w, lg)" by (cases st)
  from convert_segment_ok [OF assms [unfolded st]] obtain new' where
    "new = [] @ new'" "list_all2 (decoded_from cfg) (filter emits [seg]) new'"
    by blast
  then show ?thesis by (auto simp: list_all2_Cons1)
qed

lemma convert_loop_each:
  assumes "convert_loop tools cfg ob segs ([], False) st = (Inr (decoded, tome), st')"
  shows "decoded = concat (decode_each tools cfg ob segs st)
         \<and> list_all2 (\<lambda>seg piece. length piece = (if emits seg then 1 else 0)
                                    \<and> list_all (decoded_from cfg seg) piece)
              segs (decode_each tools cfg ob segs st)"
  using assms
proof (induction segs arbitrary: decoded tome st)
  case Nil
  then show ?case by simp
next
  case (Cons seg segs)
  from Cons.prems obtain new t st2 where
    sg: "convert_segment tools cfg ob seg ([], False) st = (Inr (new, t), st2)"
    and ys: "convert_loop tools cfg ob segs (new, t) st2 = (Inr (decoded, tome), st')"
    by (auto split: prod.splits sum.splits)
  from ys convert_loop_acc [of tools cfg ob segs new t st2] obtain d2 t2 where
    rest: "convert_loop tools cfg ob segs ([], False) st2 = (Inr (d2, t2), st')"
    and e: "decoded = new @ d2"
    by (auto split: prod.splits sum.splits)
  from Cons.IH [OF rest] convert_segment_piece [OF sg] sg e show ?case by simp
qed

section \<open>The prompt encoder\<close>

lemma prompt_loop_acc:
  "prompt_loop path c segs acc = acc @ prompt_loop path c segs ''''"
proof (induction segs arbitrary: acc)
  case Nil
  show ?case by simp
next
  case (Cons seg segs)
  have "prompt_loop path c (seg # segs) acc
          = prompt_loop path c segs (acc @ segment_prompt path c seg)"
    by simp
  also have "\<dots> = (acc @ segment_prompt path c seg) @ prompt_loop path c segs ''''"
    by (rule Cons.IH)
  also have "\<dots> = acc @ prompt_loop path c segs (segment_prompt path c seg)"
    using Cons.IH [of "segment_prompt path c seg"] by simp
  finally show ?case by simp
qed

lemma prompt_loop_append:
  "prompt_loop path c (xs @ ys) acc = prompt_loop path c ys (prompt_loop path c xs acc)"
  by (induction xs arbitrary: acc) simp_all

lemma prompt_loop_concat:
  "prompt_loop path c segs '''' = concat (map (segment_prompt path c) segs)"
proof (induction segs)
  case Nil
  show ?case by simp
next
  case (Cons seg segs)
  have "prompt_loop path c (seg # segs) '''' = prompt_loop path c segs (segment_prompt path c seg)"
    by simp
  also have "\<dots> = segment_prompt path c seg @ prompt_loop path c segs ''''"
    by (rule prompt_loop_acc)
  finally show ?case using Cons.IH by simp
qed

text \<open>
  C10. The encoder is a homomorphism for concatenation: the encoding of \<open>xs @ ys\<close> is
  the encoding of \<open>xs\<close> followed by that of \<open>ys\<close>, under the same one-time code, and
  the empty segment list encodes to the empty string. Each segment contributes its own
  encoding, whatever its neighbours are: the encoding of a list is the concatenation
  of the encodings of its segments.
\<close>

theorem prompt_str_append:
  "convert_chat_message_to_prompt_str path (xs @ ys) c
     = convert_chat_message_to_prompt_str path xs c
       @ convert_chat_message_to_prompt_str path ys c
   \<and> convert_chat_message_to_prompt_str path [] c = ''''
   \<and> convert_chat_message_to_prompt_str path xs c = concat (map (segment_prompt path c) xs)"
proof (intro conjI)
  show "convert_chat_message_to_prompt_str path xs c = concat (map (segment_prompt path c) xs)"
    by (simp add: convert_chat_message_to_prompt_str_def prompt_loop_concat)
next
  have "prompt_loop path c (xs @ ys) '''' = prompt_loop path c ys (prompt_loop path c xs '''')"
    by (rule prompt_loop_append)
  also have "\<dots> = prompt_loop path c xs '''' @ prompt_loop path c ys ''''"
    by (rule prompt_loop_acc)
  finally show "convert_chat_message_to_prompt_str path (xs @ ys) c
     = convert_chat_message_to_prompt_str path xs c
       @ convert_chat_message_to_prompt_str path ys c"
    by (simp add: convert_chat_message_to_prompt_str_def)
next
  show "convert_chat_message_to_prompt_str path [] c = ''''"
    by (simp add: convert_chat_message_to_prompt_str_def)
qed

text \<open>
  C6. The single image segment with file name \<open>img1.png\<close> and remote URL
  \<open>http://x/y.png\<close>, encoded under the code \<open>OTC1\<close>, is exactly the marker
  \<open><OTC1 | Image:P>\<close> with \<open>P\<close> the prompt path of \<open>img1.png\<close>, and nothing around it.
\<close>

theorem image_marker_exact:
  "convert_chat_message_to_prompt_str path
       [ChatMessageSegmentImage IMAGE '''' ''img1.png'' lp ''http://x/y.png''] ''OTC1''
     = ''<OTC1 | Image:'' @ path ''img1.png'' @ ''>''"
  by (simp add: convert_chat_message_to_prompt_str_def)

section \<open>The conversion as a whole\<close>

lemma convert_chat_message_ok:
  assumes "convert_chat_message tools cfg ob msg_to_me st = (Inr (out, tome), st')"
  shows "\<exists>decoded.
           convert_loop tools cfg ob (message ob) ([], False) st = (Inr (decoded, tome), st')
           \<and> out = (if msg_to_me \<and> \<not> tome then [synthetic_mention cfg] else []) @ decoded
           \<and> list_all2 (decoded_from cfg) (filter emits (message ob)) decoded
           \<and> tome = (\<exists>s\<in>set (message ob). wire_self_at cfg s)"
proof -
  from assms obtain decoded where
    lp: "convert_loop tools cfg ob (message ob) ([], False) st = (Inr (decoded, tome), st')"
    and out: "out = (if msg_to_me \<and> \<not> tome then [synthetic_mention cfg] else []) @ decoded"
    by (auto simp: convert_chat_message_def synthetic_mention_def
             split: prod.splits sum.splits if_splits)
  from convert_loop_ok [OF lp] have
    "list_all2 (decoded_from cfg) (filter emits (message ob)) decoded"
    "tome = (\<exists>s\<in>set (message ob). wire_self_at cfg s)"
    by auto
  with lp out show ?thesis by blast
qed

lemma convert_chat_message_loop:
  assumes "convert_loop tools cfg ob (message ob) ([], False) st = (r, st')"
  shows "convert_chat_message tools cfg ob m st =
           ((case r of
               Inl e \<Rightarrow> Inl e
             | Inr (ret_list, is_tome) \<Rightarrow>
                 Inr (if m \<and> \<not> is_tome then synthetic_mention cfg # ret_list else ret_list,
                      is_tome)), st')"
  using assms
  by (simp add: convert_chat_message_def synthetic_mention_def split: sum.splits prod.splits)

lemma convert_chat_message_split_at:
  assumes "convert_chat_message tools cfg ob m st = (Inr (out, tome), st')"
    and "message ob = xs @ seg # ys"
  shows "\<exists>d1 t1 st1 new t st2 d2 t2.
           convert_loop tools cfg ob xs ([], False) st = (Inr (d1, t1), st1)
           \<and> convert_segment tools cfg ob seg ([], False) st1 = (Inr (new, t), st2)
           \<and> convert_loop tools cfg ob ys ([], False) st2 = (Inr (d2, t2), st')
           \<and> out = (if m \<and> \<not> tome then [synthetic_mention cfg] else []) @ d1 @ new @ d2
           \<and> tome = (t1 \<or> t \<or> t2)"
proof -
  from convert_chat_message_ok [OF assms(1)] obtain decoded where
    lp: "convert_loop tools cfg ob (message ob) ([], False) st = (Inr (decoded, tome), st')"
    and out: "out = (if m \<and> \<not> tome then [synthetic_mention cfg] else []) @ decoded"
    by blast
  from lp assms(2) have
    "convert_loop tools cfg ob (xs @ seg # ys) ([], False) st = (Inr (decoded, tome), st')"
    by simp
  from convert_loop_split_at [OF this] out show ?thesis by blast
qed

lemma convert_segment_image_url:
  assumes "ms_type seg = ''image''" and "ms_data seg ''url'' = Some u"
  shows "convert_segment tools cfg ob seg (ret_list, is_tome) (w, lg) =
           (case download_file tools u (image_suffix (ms_data seg)) w of
              (Inl e, w') \<Rightarrow> (Inl e, (w', lg))
            | (Inr (lp, fname), w') \<Rightarrow>
                (Inr (ret_list @ [ChatMessageSegmentImage IMAGE '''' fname lp u], is_tome),
                 (w', lg)))"
  using assms
  by (auto simp: convert_segment.simps Let_def split: prod.splits sum.splits)

lemma convert_segment_self_at:
  assumes "ms_type seg = ''at''" and "ms_data seg ''qq'' = Some q"
    and "py_str q = py_str (BOT_QQ cfg)"
  shows "convert_segment tools cfg ob seg (ret_list, is_tome) st =
           (case group_id ob of
              None \<Rightarrow> (Inl AssertionError, st)
            | Some g \<Rightarrow>
                (Inr (ret_list @
                       [ChatMessageSegmentAt AT '''' (py_str (BOT_QQ cfg)) (AI_CHAT_PRESET_NAME cfg)],
                      True), st))"
  using assms by (cases st) (simp add: convert_segment.simps split: option.splits)

section \<open>Skipped segments\<close>

lemma convert_segment_file:
  "ms_type s = ''file'' \<Longrightarrow> convert_segment tools cfg ob s acc st = (Inr acc, st)"
  by (cases acc; cases st) (simp add: convert_segment.simps)

lemma convert_segment_image_bare:
  "ms_type s = ''image'' \<Longrightarrow> ms_data s ''url'' = None \<Longrightarrow> ms_data s ''file'' = None \<Longrightarrow>
     convert_segment tools cfg ob s acc (w, lg) = (Inr acc, (w, lg @ [Warning_image_without_url s]))"
  by (cases acc) (simp add: convert_segment.simps)

lemma convert_loop_skip_file:
  assumes "ms_type s = ''file''"
  shows "convert_loop tools cfg ob (xs @ s # ys) acc st = convert_loop tools cfg ob (xs @ ys) acc st"
  using assms
  by (simp add: convert_loop_append convert_segment_file split: prod.splits sum.splits)

lemma convert_loop_skip_image:
  assumes "ms_type s = ''image''" and "ms_data s ''url'' = None" and "ms_data s ''file'' = None"
    and full: "convert_loop tools cfg ob (xs @ s # ys) acc st = (r, (w', lg'))"
  shows "\<exists>lg''. convert_loop tools cfg ob (xs @ ys) acc st = (r, (w', lg''))
           \<and> (\<not> isl r \<longrightarrow>
                (\<exists>l1 l2. lg'' = l1 @ l2 \<and> lg' = l1 @ Warning_image_without_url s # l2))"
proof -
  obtain r1 w1 l1 where xs: "convert_loop tools cfg ob xs acc st = (r1, (w1, l1))"
    by (metis prod.exhaust)
  show ?thesis
  proof (cases r1)
    case (Inl e)
    with xs full have "r = Inl e" "convert_loop tools cfg ob (xs @ ys) acc st = (r, (w', lg'))"
      by (auto simp: convert_loop_append)
    then show ?thesis by simp
  next
    case (Inr acc1)
    obtain r2 w2 l2 where ys: "convert_loop tools cfg ob ys acc1 (w1, []) = (r2, (w2, l2))"
      by (metis prod.exhaust)
    have a: "convert_loop tools cfg ob ys acc1 (w1, l1 @ [Warning_image_without_url s])
               = (r2, (w2, (l1 @ [Warning_image_without_url s]) @ l2))"
      using convert_loop_log [of tools cfg ob ys acc1 w1 "l1 @ [Warning_image_without_url s]"] ys
      by simp
    have b: "convert_loop tools cfg ob ys acc1 (w1, l1) = (r2, (w2, l1 @ l2))"
      using convert_loop_log [of tools cfg ob ys acc1 w1 l1] ys by simp
    have "convert_loop tools cfg ob (xs @ s # ys) acc st
            = (r2, (w2, (l1 @ [Warning_image_without_url s]) @ l2))"
      using xs Inr a assms(1-3) by (simp add: convert_loop_append convert_segment_image_bare)
    with full have eq: "r = r2" "w' = w2" "lg' = l1 @ Warning_image_without_url s # l2"
      by simp_all
    have "convert_loop tools cfg ob (xs @ ys) acc st = (r2, (w2, l1 @ l2))"
      using xs Inr b by (simp add: convert_loop_append)
    with eq show ?thesis by blast
  qed
qed

section \<open>Decoding a persisted record\<close>

lemma unknown_variant_error: "unknown_variant i \<Longrightarrow> \<exists>e. segment_from_dict i = Inl e"
  by (cases i) (auto simp: known_tags_def split: option.splits json.splits)

lemma unknown_variant_items:
  "\<exists>i\<in>set items. unknown_variant i \<Longrightarrow> \<exists>e. segments_from_items items = Inl e"
proof (induction items)
  case Nil
  then show ?case by simp
next
  case (Cons item items)
  show ?case
  proof (cases "segment_from_dict item")
    case (Inl e)
    then show ?thesis by (simp add: bind_error_def)
  next
    case (Inr seg)
    with Cons.prems unknown_variant_error [of item] have "\<exists>i\<in>set items. unknown_variant i"
      by auto
    from Cons.IH [OF this] Inr show ?thesis by (auto simp: bind_error_def)
  qed
qed

section \<open>Evaluation in the concrete setting\<close>

lemma image_both_suffix: "image_suffix (ms_data image_both) = ''.png''"
  by code_simp

lemmas example_defs =
  example_tools_def example_config_def text_hi_def file_seg_def image_bare_def image_both_def
  at_self_def at_other_def reply_event_def group_event_def

section \<open>The properties of the convertor\<close>

subsection \<open>C1: the synthetic mention\<close>

text \<open>
  C1, as the code has it. When \<open>msg_to_me\<close> is true, no wire segment mentions the
  agent's own identifier and the conversion returns, the returned list is not empty
  and its first segment is a mention whose \<open>target_qq\<close> is the agent's identifier
  and whose \<open>target_nickname\<close> is the configured persona name. The returned flag is
  false: it is \<open>is_tome\<close>, which only an explicit mention of the agent sets, and the
  insertion at index 0 leaves it as the loop left it.
\<close>

theorem synthetic_mention_inserted:
  assumes "convert_chat_message tools cfg ob True st = (Inr (out, tome), st')"
    and "\<forall>s\<in>set (message ob). \<not> wire_self_at cfg s"
  shows "out \<noteq> [] \<and> hd out = synthetic_mention cfg
         \<and> target_qq (hd out) = py_str (BOT_QQ cfg)
         \<and> target_nickname (hd out) = AI_CHAT_PRESET_NAME cfg
         \<and> \<not> tome"
proof -
  from convert_chat_message_ok [OF assms(1)] obtain decoded where
    out: "out = (if True \<and> \<not> tome then [synthetic_mention cfg] else []) @ decoded"
    and tome: "tome = (\<exists>s\<in>set (message ob). wire_self_at cfg s)"
    by blast
  from tome assms(2) have nt: "\<not> tome" by blast
  with out have "out = synthetic_mention cfg # decoded" by simp
  with nt show ?thesis by (simp add: synthetic_mention_def)
qed

text \<open>The reply \<open>[hi]\<close> to the agent, outside any group.\<close>

theorem synthetic_mention_inserted_witness:
  "convert_chat_message example_tools example_config reply_event True (0, [])
     = (Inr ([synthetic_mention example_config, ChatMessageSegment TEXT ''hi''], False), (0, []))
   \<and> message reply_event = [text_hi] \<and> \<not> wire_self_at example_config text_hi
   \<and> hd [synthetic_mention example_config, ChatMessageSegment TEXT ''hi'']
       = synthetic_mention example_config"
proof -
  have h1: "convert_chat_message example_tools example_config reply_event True (0, [])
     = (Inr ([synthetic_mention example_config, ChatMessageSegment TEXT ''hi''], False), (0, []))"
    by (simp add: convert_chat_message_def convert_segment.simps synthetic_mention_def
          reply_event_def text_hi_def)
  have h2: "\<forall>s\<in>set (message reply_event). \<not> wire_self_at example_config s"
    by (simp add: reply_event_def text_hi_def wire_self_at_def)
  have h3: "message reply_event = [text_hi]" by (simp add: reply_event_def)
  from synthetic_mention_inserted [OF h1 h2] h1 h2 h3 show ?thesis by simp
qed

text \<open>
  C1 as stated asks for a true flag. A reply in a group that holds a text and a
  mention of somebody else gets the synthetic mention in front, and the flag returned
  with it is false.
\<close>

theorem returned_flag_counterexample:
  "convert_chat_message example_tools example_config
       \<lparr> message = [text_hi, at_other], group_id = Some 5 \<rparr> True (0, [])
     = (Inr ([ChatMessageSegmentAt AT '''' ''10001'' ''Neko'',
              ChatMessageSegment TEXT ''hi'',
              ChatMessageSegmentAt AT '''' ''20002'' ''card of 20002''], False), (1, []))
   \<and> \<not> wire_self_at example_config text_hi \<and> \<not> wire_self_at example_config at_other"
  by (simp add: convert_chat_message_def convert_segment.simps wire_self_at_def py_str_def
        Let_def example_tools_def example_config_def text_hi_def at_other_def)

subsection \<open>C2: no synthetic mention beside an explicit one\<close>

text \<open>
  C2. Whenever the conversion returns: if the wire message holds a mention of the
  agent's own identifier, the returned list is exactly the list the decoding loop
  built, with nothing inserted, whatever \<open>msg_to_me\<close> is, and it holds as many
  mentions of the agent as the wire message does. In every call the returned list
  holds at most one mention of the agent more than the wire message, and at most one
  segment more than the wire segments that decode to a segment.
\<close>

theorem explicit_self_mention_no_synthetic:
  assumes "convert_chat_message tools cfg ob msg_to_me st = (Inr (out, tome), st')"
  shows "((\<exists>s\<in>set (message ob). wire_self_at cfg s) \<longrightarrow>
            convert_loop tools cfg ob (message ob) ([], False) st = (Inr (out, tome), st')
            \<and> length (filter (is_self_mention cfg) out)
                = length (filter (wire_self_at cfg) (message ob)))
         \<and> length (filter (is_self_mention cfg) out)
             \<le> length (filter (wire_self_at cfg) (message ob)) + 1
         \<and> length out \<le> length (filter emits (message ob)) + 1"
proof -
  from convert_chat_message_ok [OF assms] obtain decoded where
    lp: "convert_loop tools cfg ob (message ob) ([], False) st = (Inr (decoded, tome), st')"
    and out: "out = (if msg_to_me \<and> \<not> tome then [synthetic_mention cfg] else []) @ decoded"
    and dec: "list_all2 (decoded_from cfg) (filter emits (message ob)) decoded"
    and tome: "tome = (\<exists>s\<in>set (message ob). wire_self_at cfg s)"
    by blast
  have cnt: "length (filter (is_self_mention cfg) decoded)
               = length (filter (wire_self_at cfg) (message ob))"
    using decoded_count_self [OF dec] by (simp only: filter_self_emits)
  have len: "length decoded = length (filter emits (message ob))"
    using dec by (simp add: list_all2_lengthD)
  have a: "(\<exists>s\<in>set (message ob). wire_self_at cfg s) \<longrightarrow>
            convert_loop tools cfg ob (message ob) ([], False) st = (Inr (out, tome), st')
            \<and> length (filter (is_self_mention cfg) out)
                = length (filter (wire_self_at cfg) (message ob))"
    using lp out cnt tome by simp
  have b: "length (filter (is_self_mention cfg) out)
             \<le> length (filter (wire_self_at cfg) (message ob)) + 1"
    using out cnt by (simp add: synthetic_mention_def)
  have c: "length out \<le> length (filter emits (message ob)) + 1"
    using out len by simp
  from a b c show ?thesis by blast
qed

text \<open>A group message that mentions the agent and is also flagged as directed at it.\<close>

theorem explicit_self_mention_no_synthetic_witness:
  "convert_chat_message example_tools example_config group_event True (0, [])
     = (Inr ([ChatMessageSegment TEXT ''hi'',
              ChatMessageSegmentImage IMAGE '''' ''dl.png'' ''/uploads/dl.png'' ''http://x/y.png'',
              ChatMessageSegmentAt AT '''' ''10001'' ''Neko'',
              ChatMessageSegmentAt AT '''' ''20002'' ''card of 20002''], True),
        (2, [Warning_image_without_url image_bare]))
   \<and> (\<exists>s\<in>set (message group_event). wire_self_at example_config s)
   \<and> length (filter (is_self_mention example_config)
        [ChatMessageSegment TEXT ''hi'',
         ChatMessageSegmentImage IMAGE '''' ''dl.png'' ''/uploads/dl.png'' ''http://x/y.png'',
         ChatMessageSegmentAt AT '''' ''10001'' ''Neko'',
         ChatMessageSegmentAt AT '''' ''20002'' ''card of 20002''])
       = length (filter (wire_self_at example_config) (message group_event))"
proof -
  have h1: "convert_chat_message example_tools example_config group_event True (0, [])
     = (Inr ([ChatMessageSegment TEXT ''hi'',
              ChatMessageSegmentImage IMAGE '''' ''dl.png'' ''/uploads/dl.png'' ''http://x/y.png'',
              ChatMessageSegmentAt AT '''' ''10001'' ''Neko'',
              ChatMessageSegmentAt AT '''' ''20002'' ''card of 20002''], True),
        (2, [Warning_image_without_url image_bare]))"
    using image_both_suffix
    by (simp add: convert_chat_message_def convert_segment.simps py_str_def Let_def example_defs)
  have h2: "\<exists>s\<in>set (message group_event). wire_self_at example_config s"
    by (simp add: wire_self_at_def py_str_def example_defs)
  from explicit_self_mention_no_synthetic [OF h1] h1 h2 show ?thesis by blast
qed

subsection \<open>C3: the order of the wire segments\<close>

text \<open>
  C3. Whenever the conversion returns, the returned list is the synthetic mention, if
  one was inserted, followed by the segments that the wire segments decode to, one
  wire segment after the other in the order of the wire message: \<open>decode_each\<close> has
  one entry for every wire segment, the entry of a wire segment is empty when the
  segment is left out and holds the one segment built from it otherwise, and the
  returned list is the concatenation of these entries. So the segment built from an
  earlier wire segment stands before the segment built from a later one. The same
  holds for every cut of the message in two: the returned list is what the first
  part decodes to, followed by what the second part decodes to in the state that
  the first part left.
\<close>

theorem order_preserved:
  assumes "convert_chat_message tools cfg ob msg_to_me st = (Inr (out, tome), st')"
  shows "out = (if msg_to_me \<and> \<not> tome then [synthetic_mention cfg] else [])
               @ concat (decode_each tools cfg ob (message ob) st)
         \<and> list_all2 (\<lambda>seg piece. length piece = (if emits seg then 1 else 0)
                                    \<and> list_all (decoded_from cfg seg) piece)
              (message ob) (decode_each tools cfg ob (message ob) st)
         \<and> list_all2 (decoded_from cfg) (filter emits (message ob))
              (concat (decode_each tools cfg ob (message ob) st))
         \<and> (\<forall>xs ys. message ob = xs @ ys \<longrightarrow>
               (\<exists>d1 t1 st1 d2 t2.
                  convert_loop tools cfg ob xs ([], False) st = (Inr (d1, t1), st1)
                  \<and> convert_loop tools cfg ob ys ([], False) st1 = (Inr (d2, t2), st')
                  \<and> out = (if msg_to_me \<and> \<not> tome then [synthetic_mention cfg] else [])
                           @ d1 @ d2))"
proof -
  from convert_chat_message_ok [OF assms] obtain decoded where
    lp: "convert_loop tools cfg ob (message ob) ([], False) st = (Inr (decoded, tome), st')"
    and out: "out = (if msg_to_me \<and> \<not> tome then [synthetic_mention cfg] else []) @ decoded"
    and dec: "list_all2 (decoded_from cfg) (filter emits (message ob)) decoded"
    by blast
  from convert_loop_each [OF lp] have
    each: "decoded = concat (decode_each tools cfg ob (message ob) st)"
    and pieces: "list_all2 (\<lambda>seg piece. length piece = (if emits seg then 1 else 0)
                                    \<and> list_all (decoded_from cfg seg) piece)
              (message ob) (decode_each tools cfg ob (message ob) st)"
    by simp_all
  have split: "\<exists>d1 t1 st1 d2 t2.
                  convert_loop tools cfg ob xs ([], False) st = (Inr (d1, t1), st1)
                  \<and> convert_loop tools cfg ob ys ([], False) st1 = (Inr (d2, t2), st')
                  \<and> out = (if msg_to_me \<and> \<not> tome then [synthetic_mention cfg] else [])
                           @ d1 @ d2"
    if "message ob = xs @ ys" for xs ys
  proof -
    from lp that have
      "convert_loop tools cfg ob (xs @ ys) ([], False) st = (Inr (decoded, tome), st')"
      by simp
    from convert_loop_split [OF this] out show ?thesis by blast
  qed
  from out each have
    "out = (if msg_to_me \<and> \<not> tome then [synthetic_mention cfg] else [])
               @ concat (decode_each tools cfg ob (message ob) st)"
    by simp
  moreover note pieces
  moreover from dec each have
    "list_all2 (decoded_from cfg) (filter emits (message ob))
              (concat (decode_each tools cfg ob (message ob) st))"
    by simp
  moreover from split have
    "\<forall>xs ys. message ob = xs @ ys \<longrightarrow>
               (\<exists>d1 t1 st1 d2 t2.
                  convert_loop tools cfg ob xs ([], False) st = (Inr (d1, t1), st1)
                  \<and> convert_loop tools cfg ob ys ([], False) st1 = (Inr (d2, t2), st')
                  \<and> out = (if msg_to_me \<and> \<not> tome then [synthetic_mention cfg] else [])
                           @ d1 @ d2)"
    by blast
  ultimately show ?thesis by (intro conjI)
qed

text \<open>The group message of six wire segments, four of which decode to a segment.\<close>

theorem order_preserved_witness:
  "convert_chat_message example_tools example_config group_event False (0, [])
     = (Inr ([ChatMessageSegment TEXT ''hi'',
              ChatMessageSegmentImage IMAGE '''' ''dl.png'' ''/uploads/dl.png'' ''http://x/y.png'',
              ChatMessageSegmentAt AT '''' ''10001'' ''Neko'',
              ChatMessageSegmentAt AT '''' ''20002'' ''card of 20002''], True),
        (2, [Warning_image_without_url image_bare]))
   \<and> concat (decode_each example_tools example_config group_event (message group_event) (0, []))
       = [ChatMessageSegment TEXT ''hi'',
          ChatMessageSegmentImage IMAGE '''' ''dl.png'' ''/uploads/dl.png'' ''http://x/y.png'',
          ChatMessageSegmentAt AT '''' ''10001'' ''Neko'',
          ChatMessageSegmentAt AT '''' ''20002'' ''card of 20002'']
   \<and> length (decode_each example_tools example_config group_event (message group_event) (0, []))
       = length (message group_event)"
proof -
  have h1: "convert_chat_message example_tools example_config group_event False (0, [])
     = (Inr ([ChatMessageSegment TEXT ''hi'',
              ChatMessageSegmentImage IMAGE '''' ''dl.png'' ''/uploads/dl.png'' ''http://x/y.png'',
              ChatMessageSegmentAt AT '''' ''10001'' ''Neko'',
              ChatMessageSegmentAt AT '''' ''20002'' ''card of 20002''], True),
        (2, [Warning_image_without_url image_bare]))"
    using image_both_suffix
    by (simp add: convert_chat_message_def convert_segment.simps py_str_def Let_def example_defs)
  from order_preserved [OF h1] h1 show ?thesis
    by (auto dest: list_all2_lengthD)
qed

subsection \<open>C4: segments that are left out\<close>

text \<open>
  C4, as the code has it. Let \<open>s\<close> be a wire segment of kind \<^verbatim>\<open>file\<close>, or an image
  segment with neither \<^verbatim>\<open>url\<close> nor \<^verbatim>\<open>file\<close>. Whatever the conversion of a message
  that holds \<open>s\<close> gives (the segments and the flag, or the error that another segment
  raised) and whatever world it leaves, the conversion of the message without \<open>s\<close>
  gives the same: \<open>s\<close> adds no segment and raises no error. A \<^verbatim>\<open>file\<close> segment is
  left out silently, the log is the same as without it. The image segment is left
  out with a warning: when the conversion returns, its log is the log of the
  conversion without \<open>s\<close> with the one warning about \<open>s\<close> put in.
\<close>

theorem skipped_segments:
  assumes "ms_type s = ''file''
           \<or> (ms_type s = ''image'' \<and> ms_data s ''url'' = None \<and> ms_data s ''file'' = None)"
    and "convert_chat_message tools cfg (ob\<lparr>message := xs @ s # ys\<rparr>) m st = (r, (w', lg'))"
  shows "\<exists>lg''. convert_chat_message tools cfg (ob\<lparr>message := xs @ ys\<rparr>) m st = (r, (w', lg''))
           \<and> (ms_type s = ''file'' \<longrightarrow> lg'' = lg')
           \<and> (ms_type s = ''image'' \<and> \<not> isl r \<longrightarrow>
                (\<exists>l1 l2. lg'' = l1 @ l2 \<and> lg' = l1 @ Warning_image_without_url s # l2))"
proof -
  let ?full = "ob\<lparr>message := xs @ s # ys\<rparr>" and ?less = "ob\<lparr>message := xs @ ys\<rparr>"
  obtain r0 w0 l0 where
    lp: "convert_loop tools cfg ob (xs @ s # ys) ([], False) st = (r0, (w0, l0))"
    by (metis prod.exhaust)
  then have "convert_loop tools cfg ?full (message ?full) ([], False) st = (r0, (w0, l0))"
    by (simp add: convert_loop_message)
  from convert_chat_message_loop [OF this, of m] assms(2)
  have r: "r = (case r0 of
               Inl e \<Rightarrow> Inl e
             | Inr (ret_list, is_tome) \<Rightarrow>
                 Inr (if m \<and> \<not> is_tome then synthetic_mention cfg # ret_list else ret_list,
                      is_tome))"
    and w: "w' = w0" and l: "lg' = l0"
    by simp_all
  have isl: "isl r = isl r0" using r by (simp split: sum.splits prod.splits)
  have less: "convert_chat_message tools cfg ?less m st = (r, (w', lg''))"
    if "convert_loop tools cfg ob (xs @ ys) ([], False) st = (r0, (w0, lg''))" for lg''
  proof -
    from that have "convert_loop tools cfg ?less (message ?less) ([], False) st = (r0, (w0, lg''))"
      by (simp add: convert_loop_message)
    from convert_chat_message_loop [OF this, of m] r w show ?thesis by simp
  qed
  from assms(1) show ?thesis
  proof
    assume f: "ms_type s = ''file''"
    from lp have "convert_loop tools cfg ob (xs @ ys) ([], False) st = (r0, (w0, l0))"
      by (simp add: convert_loop_skip_file [OF f])
    from less [OF this] f l show ?thesis by simp
  next
    assume i: "ms_type s = ''image'' \<and> ms_data s ''url'' = None \<and> ms_data s ''file'' = None"
    then have nf: "ms_type s \<noteq> ''file''" by simp
    from i convert_loop_skip_image [OF _ _ _ lp] obtain lg'' where
      a: "convert_loop tools cfg ob (xs @ ys) ([], False) st = (r0, (w0, lg''))"
      and b: "\<not> isl r0 \<longrightarrow>
                (\<exists>l1 l2. lg'' = l1 @ l2 \<and> l0 = l1 @ Warning_image_without_url s # l2)"
      by blast
    from less [OF a] b nf isl l show ?thesis by auto
  qed
qed

text \<open>
  An image without source in front of a mention that fails outside a group, and a
  \<^verbatim>\<open>file\<close> segment in a group message.
\<close>

theorem skipped_segments_witness:
  "(ms_type image_bare = ''file''
     \<or> (ms_type image_bare = ''image'' \<and> ms_data image_bare ''url'' = None
         \<and> ms_data image_bare ''file'' = None))
   \<and> convert_chat_message example_tools example_config
        (reply_event\<lparr>message := [text_hi] @ image_bare # [at_self]\<rparr>) False (0, [])
      = (Inl AssertionError, (0, [Warning_image_without_url image_bare]))
   \<and> (\<exists>lg''. convert_chat_message example_tools example_config
                (reply_event\<lparr>message := [text_hi] @ [at_self]\<rparr>) False (0, [])
              = (Inl AssertionError, (0, lg'')))
   \<and> (ms_type file_seg = ''file''
        \<or> (ms_type file_seg = ''image'' \<and> ms_data file_seg ''url'' = None
            \<and> ms_data file_seg ''file'' = None))
   \<and> convert_chat_message example_tools example_config
        (group_event\<lparr>message := [text_hi] @ file_seg # [at_self]\<rparr>) False (0, [])
      = (Inr ([ChatMessageSegment TEXT ''hi'', ChatMessageSegmentAt AT '''' ''10001'' ''Neko''],
              True), (0, []))
   \<and> convert_chat_message example_tools example_config
        (group_event\<lparr>message := [text_hi] @ [at_self]\<rparr>) False (0, [])
      = (Inr ([ChatMessageSegment TEXT ''hi'', ChatMessageSegmentAt AT '''' ''10001'' ''Neko''],
              True), (0, []))"
proof -
  have a1: "ms_type image_bare = ''file''
     \<or> (ms_type image_bare = ''image'' \<and> ms_data image_bare ''url'' = None
         \<and> ms_data image_bare ''file'' = None)"
    by (simp add: image_bare_def)
  have a2: "convert_chat_message example_tools example_config
        (reply_event\<lparr>message := [text_hi] @ image_bare # [at_self]\<rparr>) False (0, [])
      = (Inl AssertionError, (0, [Warning_image_without_url image_bare]))"
    by (simp add: convert_chat_message_def convert_segment.simps Let_def example_defs)
  have b1: "ms_type file_seg = ''file''
        \<or> (ms_type file_seg = ''image'' \<and> ms_data file_seg ''url'' = None
            \<and> ms_data file_seg ''file'' = None)"
    by (simp add: file_seg_def)
  have b2: "convert_chat_message example_tools example_config
        (group_event\<lparr>message := [text_hi] @ file_seg # [at_self]\<rparr>) False (0, [])
      = (Inr ([ChatMessageSegment TEXT ''hi'', ChatMessageSegmentAt AT '''' ''10001'' ''Neko''],
              True), (0, []))"
    by (simp add: convert_chat_message_def convert_segment.simps py_str_def Let_def example_defs)
  from skipped_segments [OF a1 a2] skipped_segments [OF b1 b2] a1 a2 b1 b2
  show ?thesis by auto
qed

text \<open>
  C4 as stated has a warning logged for the \<^verbatim>\<open>file\<close> segment too. The wire message
  of the text \<open>hi\<close> and a \<^verbatim>\<open>file\<close> segment decodes to the text alone, and the log,
  empty before, is empty after.
\<close>

theorem file_not_logged_counterexample:
  "convert_chat_message example_tools example_config
       \<lparr> message = [text_hi, file_seg], group_id = None \<rparr> False (0, [])
     = (Inr ([ChatMessageSegment TEXT ''hi''], False), (0, []))"
  by (simp add: convert_chat_message_def convert_segment.simps text_hi_def file_seg_def)

subsection \<open>C5: an image with both a URL and a file\<close>

text \<open>
  C5. Let \<open>seg\<close> be an image segment whose payload holds both \<^verbatim>\<open>url\<close> and \<^verbatim>\<open>file\<close>.
  The conversion of the message that holds \<open>seg\<close> alone is the download of the URL:
  an error of \<open>download_file\<close> is the error of the conversion, and otherwise the
  returned list is the image segment with the names that \<open>download_file\<close> gave and
  the URL of the wire segment as \<open>remote_url\<close> (behind the synthetic mention when
  \<open>msg_to_me\<close> is set). \<open>move_to_upload_dir\<close> has no part in it: replacing it by
  any other function changes nothing. In a longer message, whenever the conversion
  returns, the returned list holds that image segment at the place of \<open>seg\<close>: after
  the segments of the wire segments before \<open>seg\<close>, before those of the wire
  segments after it, with the names \<open>download_file\<close> returned for the URL in the
  world that the segments before had left, and with \<open>remote_url\<close> the URL, which is
  not empty when the URL of the wire segment is not.
\<close>

theorem image_url_priority:
  assumes "ms_type seg = ''image''" and "ms_data seg ''url'' = Some u"
    and "ms_data seg ''file'' = Some f"
  shows "(\<exists>hint. convert_chat_message tools cfg (ob\<lparr>message := [seg]\<rparr>) m (w, lg) =
           (case download_file tools u hint w of
              (Inl e, w') \<Rightarrow> (Inl e, (w', lg))
            | (Inr (lp, fname), w') \<Rightarrow>
                (Inr ((if m then [synthetic_mention cfg] else [])
                        @ [ChatMessageSegmentImage IMAGE '''' fname lp u], False),
                 (w', lg))))
         \<and> convert_chat_message (tools\<lparr>move_to_upload_dir := other\<rparr>) cfg
               (ob\<lparr>message := [seg]\<rparr>) m (w, lg)
             = convert_chat_message tools cfg (ob\<lparr>message := [seg]\<rparr>) m (w, lg)
         \<and> (message ob = xs @ seg # ys
              \<and> convert_chat_message tools cfg ob m st = (Inr (out, tome), st') \<longrightarrow>
             (\<exists>d1 t1 w1 lg1 hint lp fname w2 d2 t2.
                convert_loop tools cfg ob xs ([], False) st = (Inr (d1, t1), (w1, lg1))
                \<and> download_file tools u hint w1 = (Inr (lp, fname), w2)
                \<and> convert_loop tools cfg ob ys ([], False) (w2, lg1) = (Inr (d2, t2), st')
                \<and> out = (if m \<and> \<not> tome then [synthetic_mention cfg] else [])
                         @ d1 @ [ChatMessageSegmentImage IMAGE '''' fname lp u] @ d2
                \<and> remote_url (ChatMessageSegmentImage IMAGE '''' fname lp u) = u))"
proof (intro conjI impI)
  have "convert_chat_message tools cfg (ob\<lparr>message := [seg]\<rparr>) m (w, lg) =
           (case download_file tools u (image_suffix (ms_data seg)) w of
              (Inl e, w') \<Rightarrow> (Inl e, (w', lg))
            | (Inr (lp, fname), w') \<Rightarrow>
                (Inr ((if m then [synthetic_mention cfg] else [])
                        @ [ChatMessageSegmentImage IMAGE '''' fname lp u], False),
                 (w', lg)))"
    using assms(1,2)
    by (simp add: convert_chat_message_def convert_segment_image_url synthetic_mention_def
             split: prod.splits sum.splits)
  then show "\<exists>hint. convert_chat_message tools cfg (ob\<lparr>message := [seg]\<rparr>) m (w, lg) =
           (case download_file tools u hint w of
              (Inl e, w') \<Rightarrow> (Inl e, (w', lg))
            | (Inr (lp, fname), w') \<Rightarrow>
                (Inr ((if m then [synthetic_mention cfg] else [])
                        @ [ChatMessageSegmentImage IMAGE '''' fname lp u], False),
                 (w', lg)))"
    by blast
next
  show "convert_chat_message (tools\<lparr>move_to_upload_dir := other\<rparr>) cfg
               (ob\<lparr>message := [seg]\<rparr>) m (w, lg)
             = convert_chat_message tools cfg (ob\<lparr>message := [seg]\<rparr>) m (w, lg)"
    using assms(1,2)
    by (simp add: convert_chat_message_def convert_segment_image_url
             split: prod.splits sum.splits)
next
  assume a: "message ob = xs @ seg # ys
              \<and> convert_chat_message tools cfg ob m st = (Inr (out, tome), st')"
  from convert_chat_message_split_at [of tools cfg ob m st out tome st' xs seg ys] a
  obtain d1 t1 w1 lg1 new t st2 d2 t2 where
    xs: "convert_loop tools cfg ob xs ([], False) st = (Inr (d1, t1), (w1, lg1))"
    and sg: "convert_segment tools cfg ob seg ([], False) (w1, lg1) = (Inr (new, t), st2)"
    and ys: "convert_loop tools cfg ob ys ([], False) st2 = (Inr (d2, t2), st')"
    and out: "out = (if m \<and> \<not> tome then [synthetic_mention cfg] else []) @ d1 @ new @ d2"
    by (metis prod.exhaust)
  from sg convert_segment_image_url [OF assms(1,2), of tools cfg ob "[]" False w1 lg1]
  obtain lp fname w2 where
    "download_file tools u (image_suffix (ms_data seg)) w1 = (Inr (lp, fname), w2)"
    "new = [ChatMessageSegmentImage IMAGE '''' fname lp u]" "st2 = (w2, lg1)"
    by (auto split: prod.splits sum.splits)
  with xs ys out show "\<exists>d1 t1 w1 lg1 hint lp fname w2 d2 t2.
                convert_loop tools cfg ob xs ([], False) st = (Inr (d1, t1), (w1, lg1))
                \<and> download_file tools u hint w1 = (Inr (lp, fname), w2)
                \<and> convert_loop tools cfg ob ys ([], False) (w2, lg1) = (Inr (d2, t2), st')
                \<and> out = (if m \<and> \<not> tome then [synthetic_mention cfg] else [])
                         @ d1 @ [ChatMessageSegmentImage IMAGE '''' fname lp u] @ d2
                \<and> remote_url (ChatMessageSegmentImage IMAGE '''' fname lp u) = u"
    by (simp del: append_assoc) blast
qed

text \<open>The image with the URL \<open>http://x/y.png\<close> and the file \<open>ABC.PNG\<close>.\<close>

theorem image_url_priority_witness:
  "ms_type image_both = ''image'' \<and> ms_data image_both ''url'' = Some ''http://x/y.png''
   \<and> ms_data image_both ''file'' = Some ''ABC.PNG''
   \<and> message group_event = [text_hi, file_seg] @ image_both # [at_self, at_other, image_bare]
   \<and> convert_chat_message example_tools example_config group_event False (0, [])
      = (Inr ([ChatMessageSegment TEXT ''hi'',
               ChatMessageSegmentImage IMAGE '''' ''dl.png'' ''/uploads/dl.png'' ''http://x/y.png'',
               ChatMessageSegmentAt AT '''' ''10001'' ''Neko'',
               ChatMessageSegmentAt AT '''' ''20002'' ''card of 20002''], True),
         (2, [Warning_image_without_url image_bare]))
   \<and> (\<exists>d1 lp fname d2.
         [ChatMessageSegment TEXT ''hi'',
          ChatMessageSegmentImage IMAGE '''' ''dl.png'' ''/uploads/dl.png'' ''http://x/y.png'',
          ChatMessageSegmentAt AT '''' ''10001'' ''Neko'',
          ChatMessageSegmentAt AT '''' ''20002'' ''card of 20002'']
         = d1 @ [ChatMessageSegmentImage IMAGE '''' fname lp ''http://x/y.png''] @ d2)
   \<and> convert_chat_message example_tools example_config
        (reply_event\<lparr>message := [image_both]\<rparr>) False (0, [])
      = (Inr ([ChatMessageSegmentImage IMAGE '''' ''dl.png'' ''/uploads/dl.png'' ''http://x/y.png''],
              False), (1, []))"
proof -
  have h1: "ms_type image_both = ''image''" by (simp add: image_both_def)
  have h2: "ms_data image_both ''url'' = Some ''http://x/y.png''" by (simp add: image_both_def)
  have h3: "ms_data image_both ''file'' = Some ''ABC.PNG''" by (simp add: image_both_def)
  have h4: "message group_event = [text_hi, file_seg] @ image_both # [at_self, at_other, image_bare]"
    by (simp add: group_event_def)
  have h5: "convert_chat_message example_tools example_config group_event False (0, [])
      = (Inr ([ChatMessageSegment TEXT ''hi'',
               ChatMessageSegmentImage IMAGE '''' ''dl.png'' ''/uploads/dl.png'' ''http://x/y.png'',
               ChatMessageSegmentAt AT '''' ''10001'' ''Neko'',
               ChatMessageSegmentAt AT '''' ''20002'' ''card of 20002''], True),
         (2, [Warning_image_without_url image_bare]))"
    using image_both_suffix
    by (simp add: convert_chat_message_def convert_segment.simps py_str_def Let_def example_defs)
  have h6: "convert_chat_message example_tools example_config
        (reply_event\<lparr>message := [image_both]\<rparr>) False (0, [])
      = (Inr ([ChatMessageSegmentImage IMAGE '''' ''dl.png'' ''/uploads/dl.png'' ''http://x/y.png''],
              False), (1, []))"
    using image_both_suffix h1 h2
    by (simp add: convert_chat_message_def convert_segment.simps Let_def example_tools_def
          reply_event_def)
  from image_url_priority [OF h1 h2 h3, where ob = group_event and xs = "[text_hi, file_seg]"
         and ys = "[at_self, at_other, image_bare]" and tools = example_tools
         and cfg = example_config and m = False and st = "(0, [])" and tome = True
         and st' = "(2, [Warning_image_without_url image_bare])"] h4 h5
  have "\<exists>d1 lp fname d2.
         [ChatMessageSegment TEXT ''hi'',
          ChatMessageSegmentImage IMAGE '''' ''dl.png'' ''/uploads/dl.png'' ''http://x/y.png'',
          ChatMessageSegmentAt AT '''' ''10001'' ''Neko'',
          ChatMessageSegmentAt AT '''' ''20002'' ''card of 20002'']
         = d1 @ [ChatMessageSegmentImage IMAGE '''' fname lp ''http://x/y.png''] @ d2"
    by (simp del: append_assoc append_Cons) blast
  with h1 h2 h3 h4 h5 h6 show ?thesis by blast
qed

subsection \<open>C7: the suffix hint\<close>

text \<open>
  C7. The suffix hint of the file name \<open>photo\<close>, which has no extension, is
  \<open>.photo\<close> and not the empty string, and that is the hint \<open>download_file\<close>
  receives: the example collaborator puts it at the end of the names it returns.
\<close>

theorem suffix_of_dotless_name:
  "image_suffix [''file'' \<mapsto> ''photo''] = ''.photo''
   \<and> convert_chat_message example_tools example_config
        \<lparr> message = [\<lparr> ms_type = ''image'',
                       ms_data = [''url'' \<mapsto> ''http://x/y'', ''file'' \<mapsto> ''photo''] \<rparr>],
          group_id = None \<rparr> False (0, [])
      = (Inr ([ChatMessageSegmentImage IMAGE '''' ''dl.photo'' ''/uploads/dl.photo'' ''http://x/y''],
              False), (1, []))"
  by (simp add: image_suffix_def lower_def lower_char_def convert_chat_message_def
        convert_segment.simps example_tools_def example_config_def Let_def)

subsection \<open>C8: records that do not decode\<close>

text \<open>
  C8. When \<open>json_loads\<close> raises on the text, the conversion of the record raises
  that error. When the text decodes to an array that holds an element which is none
  of the four tagged variants, the conversion raises an error as well. In both cases
  the result is an error and no prompt string.
\<close>

theorem raw_record_decoding_errors:
  "(json_loads s = Inl e \<longrightarrow>
      convert_raw_msg_data_json_to_msg_prompt json_loads path s c = Inl e)
   \<and> (json_loads s = Inr (JArray items) \<and> (\<exists>i\<in>set items. unknown_variant i) \<longrightarrow>
      (\<exists>e'. convert_raw_msg_data_json_to_msg_prompt json_loads path s c = Inl e'))"
proof (intro conjI impI)
  assume "json_loads s = Inl e"
  then show "convert_raw_msg_data_json_to_msg_prompt json_loads path s c = Inl e"
    by (simp add: convert_raw_msg_data_json_to_msg_prompt_def)
next
  assume a: "json_loads s = Inr (JArray items) \<and> (\<exists>i\<in>set items. unknown_variant i)"
  then obtain e' where "segments_from_items items = Inl e'"
    using unknown_variant_items by blast
  with a show "\<exists>e'. convert_raw_msg_data_json_to_msg_prompt json_loads path s c = Inl e'"
    by (simp add: convert_raw_msg_data_json_to_msg_prompt_def)
qed

text \<open>The text \<open>{\<close>, which is not JSON, and the record with an object tagged \<^verbatim>\<open>video\<close>.\<close>

theorem raw_record_decoding_errors_witness:
  "example_json_loads ''{'' = Inl (ValueError ''JSONDecodeError'')
   \<and> convert_raw_msg_data_json_to_msg_prompt example_json_loads example_prompt_path ''{'' ''OTC1''
       = Inl (ValueError ''JSONDecodeError'')
   \<and> example_json_loads example_record
       = Inr (JArray [JObject [(''type'', JString ''text''), (''text'', JString ''hi'')],
                      JObject [(''type'', JString ''video'')]])
   \<and> (\<exists>i\<in>set [JObject [(''type'', JString ''text''), (''text'', JString ''hi'')],
                 JObject [(''type'', JString ''video'')]]. unknown_variant i)
   \<and> (\<exists>e'. convert_raw_msg_data_json_to_msg_prompt example_json_loads example_prompt_path
               example_record ''OTC1'' = Inl e')"
proof -
  have h1: "example_json_loads ''{'' = Inl (ValueError ''JSONDecodeError'')"
    by (simp add: example_json_loads_def example_record_def)
  have h2: "example_json_loads example_record
       = Inr (JArray [JObject [(''type'', JString ''text''), (''text'', JString ''hi'')],
                      JObject [(''type'', JString ''video'')]])"
    by (simp add: example_json_loads_def)
  have h3: "\<exists>i\<in>set [JObject [(''type'', JString ''text''), (''text'', JString ''hi'')],
                 JObject [(''type'', JString ''video'')]]. unknown_variant i"
    by (simp add: known_tags_def)
  from raw_record_decoding_errors
         [of example_json_loads "''{''" "ValueError ''JSONDecodeError''" example_prompt_path
             "''OTC1''"]
       raw_record_decoding_errors
         [of example_json_loads example_record _ example_prompt_path "''OTC1''"
             "[JObject [(''type'', JString ''text''), (''text'', JString ''hi'')],
               JObject [(''type'', JString ''video'')]]"]
       h1 h2 h3
  show ?thesis by blast
qed

subsection \<open>C9: a mention of the agent itself\<close>

text \<open>
  C9. Let \<open>seg\<close> be a mention segment whose \<^verbatim>\<open>qq\<close>, as a string, equals the agent's
  identifier. In a group event the conversion of the message that holds \<open>seg\<close> alone
  returns the one mention with the agent's identifier as \<open>target_qq\<close> and the
  persona name as \<open>target_nickname\<close>, a true flag, and the state as it was; the loop
  body on \<open>seg\<close> appends that mention, sets the flag and leaves the state. The
  right-hand sides name no collaborator and the state is unchanged, so
  \<open>get_user_group_card_name\<close> is not called. In a longer message, whenever the
  conversion returns, the flag is true and the returned list holds that mention at
  the place of \<open>seg\<close>: after the segments of the wire segments before \<open>seg\<close> and
  before those of the wire segments after it, which are decoded in the very state
  that the segments before \<open>seg\<close> had left.
\<close>

theorem self_mention_resolution:
  assumes "ms_type seg = ''at''" and "ms_data seg ''qq'' = Some q"
    and "py_str q = py_str (BOT_QQ cfg)"
  shows "(group_id ob = Some g \<longrightarrow>
            convert_chat_message tools cfg (ob\<lparr>message := [seg]\<rparr>) m st =
              (Inr ([ChatMessageSegmentAt AT '''' (py_str (BOT_QQ cfg)) (AI_CHAT_PRESET_NAME cfg)],
                    True), st)
            \<and> convert_segment tools cfg ob seg (ret_list, is_tome) st =
                (Inr (ret_list @
                       [ChatMessageSegmentAt AT '''' (py_str (BOT_QQ cfg)) (AI_CHAT_PRESET_NAME cfg)],
                      True), st))
         \<and> (message ob = xs @ seg # ys
              \<and> convert_chat_message tools cfg ob m st0 = (Inr (out, tome), st') \<longrightarrow>
             tome
             \<and> (\<exists>d1 t1 st1 d2 t2.
                  convert_loop tools cfg ob xs ([], False) st0 = (Inr (d1, t1), st1)
                  \<and> convert_loop tools cfg ob ys ([], False) st1 = (Inr (d2, t2), st')
                  \<and> out = d1 @ [ChatMessageSegmentAt AT '''' (py_str (BOT_QQ cfg))
                                   (AI_CHAT_PRESET_NAME cfg)] @ d2))"
proof (intro conjI impI)
  assume g: "group_id ob = Some g"
  show "convert_chat_message tools cfg (ob\<lparr>message := [seg]\<rparr>) m st =
              (Inr ([ChatMessageSegmentAt AT '''' (py_str (BOT_QQ cfg)) (AI_CHAT_PRESET_NAME cfg)],
                    True), st)"
    using g by (simp add: convert_chat_message_def convert_segment_self_at [OF assms])
  show "convert_segment tools cfg ob seg (ret_list, is_tome) st =
                (Inr (ret_list @
                       [ChatMessageSegmentAt AT '''' (py_str (BOT_QQ cfg)) (AI_CHAT_PRESET_NAME cfg)],
                      True), st)"
    using g by (simp add: convert_segment_self_at [OF assms])
next
  assume a: "message ob = xs @ seg # ys
              \<and> convert_chat_message tools cfg ob m st0 = (Inr (out, tome), st')"
  from convert_chat_message_split_at [of tools cfg ob m st0 out tome st' xs seg ys] a
  obtain d1 t1 st1 new t st2 d2 t2 where
    xs: "convert_loop tools cfg ob xs ([], False) st0 = (Inr (d1, t1), st1)"
    and sg: "convert_segment tools cfg ob seg ([], False) st1 = (Inr (new, t), st2)"
    and ys: "convert_loop tools cfg ob ys ([], False) st2 = (Inr (d2, t2), st')"
    and out: "out = (if m \<and> \<not> tome then [synthetic_mention cfg] else []) @ d1 @ new @ d2"
    and tome: "tome = (t1 \<or> t \<or> t2)"
    by blast
  from sg convert_segment_self_at [OF assms, of tools ob "[]" False st1]
  have new: "new = [ChatMessageSegmentAt AT '''' (py_str (BOT_QQ cfg)) (AI_CHAT_PRESET_NAME cfg)]"
    and t: "t" and st2: "st2 = st1"
    by (auto split: option.splits)
  from tome t show tome by simp
  with xs ys out new st2 show "\<exists>d1 t1 st1 d2 t2.
                  convert_loop tools cfg ob xs ([], False) st0 = (Inr (d1, t1), st1)
                  \<and> convert_loop tools cfg ob ys ([], False) st1 = (Inr (d2, t2), st')
                  \<and> out = d1 @ [ChatMessageSegmentAt AT '''' (py_str (BOT_QQ cfg))
                                   (AI_CHAT_PRESET_NAME cfg)] @ d2"
    by auto
qed

text \<open>The mention of \<open>10001\<close>, the agent of the example configuration, in a group.\<close>

theorem self_mention_resolution_witness:
  "ms_type at_self = ''at'' \<and> ms_data at_self ''qq'' = Some ''10001''
   \<and> py_str ''10001'' = py_str (BOT_QQ example_config) \<and> group_id group_event = Some 5
   \<and> convert_chat_message example_tools example_config
        (group_event\<lparr>message := [at_self]\<rparr>) True (0, [])
      = (Inr ([ChatMessageSegmentAt AT '''' ''10001'' ''Neko''], True), (0, []))"
proof -
  have h1: "ms_type at_self = ''at''" by (simp add: at_self_def)
  have h2: "ms_data at_self ''qq'' = Some ''10001''" by (simp add: at_self_def)
  have h3: "py_str ''10001'' = py_str (BOT_QQ example_config)" by (simp add: example_config_def)
  have h4: "group_id group_event = Some 5" by (simp add: group_event_def)
  from self_mention_resolution [OF h1 h2 h3, where ob = group_event and g = 5
         and tools = example_tools and m = True and st = "(0, [])"]
    h1 h2 h3 h4
  show ?thesis by (simp add: py_str_def example_config_def)
qed

end
